theory Spec2Isabelle
  imports Complex_Main
begin

section \<open>The flame1d driver: run control, checkpointing and command line\<close>

text \<open>
  A shallow embedding of \<^verbatim>\<open>experiments/parsl/local_execution/flame_run.py\<close>.
  The driver is glue code around external libraries; the embedding keeps the
  driver's own control flow (what is looked up, opened, written, raised and in
  which order) and takes the numerical collaborators as parameters.
  Python exceptions and \<^verbatim>\<open>exit()\<close> are values of one error type, side effects
  are a trace of events together with an explicit file store.
\<close>

subsection \<open>Errors and Python strings\<close>

datatype pyerr =
    NameError string
  | AssertionError
  | ValueError string
  | KeyError string
  | IndexError
  | TypeError
  | ZeroDivisionError
  | FileNotFoundError string
  | SystemExit

definition apos :: char where
  "apos = CHR 0x27"

definition dquote :: char where
  "dquote = CHR 0x22"

definition backslash :: char where
  "backslash = CHR 0x5C"

definition slash :: char where
  "slash = CHR 0x2F"

definition dash :: char where
  "dash = CHR 0x2D"

text \<open>
  \<^verbatim>\<open>ascii(s)\<close>, the argument type of all three command-line options: Python's
  \<^verbatim>\<open>repr\<close> of a string with every character outside printable ASCII escaped.
  The quote is the double quote when the string holds an apostrophe and no
  double quote, the apostrophe otherwise. Characters are the code points below
  256, so the only numeric escape is \<^verbatim>\<open>\xhh\<close>.
\<close>

definition hex_digit :: "nat \<Rightarrow> char" where
  "hex_digit n = ''0123456789abcdef'' ! (n mod 16)"

definition repr_quote :: "string \<Rightarrow> char" where
  "repr_quote s = (if apos \<in> set s \<and> dquote \<notin> set s then dquote else apos)"

definition repr_char :: "char \<Rightarrow> char \<Rightarrow> string" where
  "repr_char q c =
     (if c = q \<or> c = backslash then [backslash, c]
      else if c = CHR 0x09 then [backslash, CHR ''t'']
      else if c = CHR 0x0A then [backslash, CHR ''n'']
      else if c = CHR 0x0D then [backslash, CHR ''r'']
      else if (of_char c :: nat) < 32 \<or> 127 \<le> (of_char c :: nat)
        then [backslash, CHR ''x'', hex_digit (of_char c div 16), hex_digit (of_char c mod 16)]
      else [c])"

definition py_ascii :: "string \<Rightarrow> string" where
  "py_ascii s = (let q = repr_quote s in [q] @ concat (map (repr_char q) s) @ [q])"

text \<open>\<^verbatim>\<open>s.replace("'", "")\<close>: every apostrophe is dropped, wherever it stands.\<close>

definition replace_apos :: "string \<Rightarrow> string" where
  "replace_apos s = filter (\<lambda>c. c \<noteq> apos) s"

text \<open>\<^verbatim>\<open>s.split(sep)\<close> for a one-character separator: never an empty list.\<close>

fun split_on :: "char \<Rightarrow> string \<Rightarrow> string list" where
  "split_on sep [] = [] # []"
| "split_on sep (c # cs) =
     (if c = sep then [] # split_on sep cs
      else (case split_on sep cs of
              [] \<Rightarrow> [c] # []
            | p # ps \<Rightarrow> (c # p) # ps))"

text \<open>\<^verbatim>\<open>xs[i]\<close> for \<^verbatim>\<open>i >= 0\<close>: IndexError out of range.\<close>

definition list_get :: "'a list \<Rightarrow> nat \<Rightarrow> pyerr + 'a" where
  "list_get xs i = (if i < length xs then Inr (xs ! i) else Inl IndexError)"

text \<open>
  \<^verbatim>\<open>os.path.split\<close> (posixpath): the tail is what follows the last slash, the
  head what precedes it, without its trailing slashes unless it is all slashes.
\<close>

definition os_path_split :: "string \<Rightarrow> string \<times> string" where
  "os_path_split p =
     (let tail = rev (takeWhile (\<lambda>c. c \<noteq> slash) (rev p));
          head = take (length p - length tail) p;
          head' = (if head \<noteq> [] \<and> \<not> list_all (\<lambda>c. c = slash) head
                   then rev (dropWhile (\<lambda>c. c = slash) (rev head)) else head)
      in (head', tail))"

text \<open>
  \<^verbatim>\<open>int(s)\<close> on a string: surrounding whitespace is stripped, one sign is
  allowed, then decimal digits with single underscores between digits;
  anything else is a ValueError (its message is kept without the quoted
  literal that Python appends).
\<close>

definition digit_val :: "char \<Rightarrow> nat option" where
  "digit_val c =
     (let n = (of_char c :: nat) in if 48 \<le> n \<and> n \<le> 57 then Some (n - 48) else None)"

definition py_isspace :: "char \<Rightarrow> bool" where
  "py_isspace c =
     (c \<in> set [CHR 0x09, CHR 0x0A, CHR 0x0B, CHR 0x0C, CHR 0x0D,
               CHR 0x1C, CHR 0x1D, CHR 0x1E, CHR 0x1F, CHR 0x20, CHR 0x85, CHR 0xA0])"

definition py_strip :: "string \<Rightarrow> string" where
  "py_strip s = rev (dropWhile py_isspace (rev (dropWhile py_isspace s)))"

fun int_body :: "string \<Rightarrow> bool \<Rightarrow> nat \<Rightarrow> nat option" where
  "int_body [] prev acc = (if prev then Some acc else None)"
| "int_body (c # cs) prev acc =
     (case digit_val c of
        Some d \<Rightarrow> int_body cs True (10 * acc + d)
      | None \<Rightarrow> if c = CHR ''_'' \<and> prev \<and> cs \<noteq> [] then int_body cs False acc else None)"

definition py_int_str :: "string \<Rightarrow> pyerr + int" where
  "py_int_str s =
     (let b = py_strip s;
          neg = (b \<noteq> [] \<and> hd b = dash);
          body = (if b \<noteq> [] \<and> (hd b = dash \<or> hd b = CHR ''+'') then tl b else b)
      in case int_body body False 0 of
           None \<Rightarrow> Inl (ValueError ''invalid literal for int() with base 10'')
         | Some n \<Rightarrow> Inr (if neg then - int n else int n))"

text \<open>
  \<^verbatim>\<open>str.format\<close> on the snapshot pattern. A pattern is a sequence of literal
  pieces and of the three fields the driver uses; \<^verbatim>\<open>{x:0Wd}\<close> pads with zeros
  to width W, the sign first.
\<close>

definition digit_char :: "nat \<Rightarrow> char" where
  "digit_char d = ''0123456789'' ! (d mod 10)"

function str_of_nat :: "nat \<Rightarrow> string" where
  "str_of_nat n = (if n < 10 then [digit_char n] else str_of_nat (n div 10) @ [digit_char (n mod 10)])"
  by pat_completeness auto
termination
  by (relation "measure id") auto

definition zero_pad :: "nat \<Rightarrow> string \<Rightarrow> string" where
  "zero_pad w s = replicate (w - length s) (CHR ''0'') @ s"

definition format_0d :: "nat \<Rightarrow> int \<Rightarrow> string" where
  "format_0d w v =
     (if v < 0 then dash # zero_pad (w - 1) (str_of_nat (nat (- v)))
      else zero_pad w (str_of_nat (nat v)))"

datatype piece = Lit string | FCasename | FStep06 | FRank04

fun format_piece :: "string \<Rightarrow> int \<Rightarrow> int \<Rightarrow> piece \<Rightarrow> string" where
  "format_piece cn st rk (Lit s) = s"
| "format_piece cn st rk FCasename = cn"
| "format_piece cn st rk FStep06 = format_0d 6 st"
| "format_piece cn st rk FRank04 = format_0d 4 rk"

definition format_pattern :: "piece list \<Rightarrow> string \<Rightarrow> int \<Rightarrow> int \<Rightarrow> string" where
  "format_pattern pat cn st rk = concat (map (format_piece cn st rk) pat)"

text \<open>The default of \<^verbatim>\<open>run_flame\<close> and the pattern the command line passes.\<close>

definition default_snapshot_pattern :: "piece list" where
  "default_snapshot_pattern = [Lit ''flame1d-'', FStep06, Lit ''-'', FRank04, Lit ''.pkl'']"

definition main_snapshot_pattern :: "piece list" where
  "main_snapshot_pattern = [FCasename, Lit ''-'', FStep06, Lit ''-'', FRank04, Lit ''.pkl'']"

subsection \<open>The command-line layer\<close>

text \<open>
  The raw values of \<^verbatim>\<open>-r\<close>, \<^verbatim>\<open>-i\<close> and \<^verbatim>\<open>-c\<close>; \<open>None\<close> is an option that is
  absent or given without a value (\<^verbatim>\<open>nargs='?'\<close>). \<^verbatim>\<open>--log\<close> is
  \<^verbatim>\<open>store_true\<close> with default \<^verbatim>\<open>True\<close>, so it is always on.
\<close>

record cli =
  cli_restart_file :: "string option"
  cli_input_file :: "string option"
  cli_casename :: "string option"

record run_args =
  a_casename :: string
  a_user_input_file :: string
  a_snapshot_pattern :: "piece list"
  a_restart_step :: "int option"
  a_restart_name :: "string option"
  a_use_logmgr :: bool

text \<open>What argparse stores: \<^verbatim>\<open>type=ascii\<close> applied to the raw value.\<close>

definition parsed :: "string option \<Rightarrow> string option" where
  "parsed raw = map_option py_ascii raw"

text \<open>An \<^verbatim>\<open>if(x)\<close> on an argparse value: neither \<^verbatim>\<open>None\<close> nor empty.\<close>

definition truthy :: "string option \<Rightarrow> bool" where
  "truthy a = (case a of None \<Rightarrow> False | Some v \<Rightarrow> v \<noteq> [])"

definition main_casename :: "string option \<Rightarrow> string" where
  "main_casename a = (if truthy a then replace_apos (the a) else ''flame1d'')"

definition main_restart :: "string option \<Rightarrow> pyerr + (int option \<times> string option)" where
  "main_restart a =
     (if truthy a then
        (let file_name = snd (os_path_split (the a));
             parts = split_on dash file_name
         in case list_get parts 1 of
              Inl e \<Rightarrow> Inl e
            | Inr p1 \<Rightarrow>
               (case py_int_str p1 of
                  Inl e \<Rightarrow> Inl e
                | Inr st \<Rightarrow>
                   (case list_get parts 0 of
                      Inl e \<Rightarrow> Inl e
                    | Inr p0 \<Rightarrow> Inr (Some st, Some (replace_apos p0)))))
      else Inr (None, None))"

text \<open>
  \<^verbatim>\<open>input_file\<close> is a module-level name that only the branch taken for a
  given \<^verbatim>\<open>-i\<close> binds; \<open>None\<close> is the unbound name.
\<close>

definition main_input_file :: "string option \<Rightarrow> string option" where
  "main_input_file a = (if truthy a then Some (replace_apos (the a)) else None)"

definition read_name :: "string \<Rightarrow> 'a option \<Rightarrow> pyerr + 'a" where
  "read_name n v = (case v of None \<Rightarrow> Inl (NameError n) | Some x \<Rightarrow> Inr x)"

text \<open>
  The \<^verbatim>\<open>__main__\<close> block up to the call of \<^verbatim>\<open>run_flame\<close>: the arguments of
  that call, or the error raised before it.
\<close>

definition main_args :: "cli \<Rightarrow> pyerr + run_args" where
  "main_args c =
     (let casename = main_casename (parsed (cli_casename c))
      in case main_restart (parsed (cli_restart_file c)) of
           Inl e \<Rightarrow> Inl e
         | Inr (restart_step, restart_name) \<Rightarrow>
            (case read_name ''input_file'' (main_input_file (parsed (cli_input_file c))) of
               Inl e \<Rightarrow> Inl e
             | Inr input_file \<Rightarrow>
                Inr \<lparr> a_casename = casename,
                      a_user_input_file = input_file,
                      a_snapshot_pattern = main_snapshot_pattern,
                      a_restart_step = restart_step,
                      a_restart_name = restart_name,
                      a_use_logmgr = True \<rparr>))"

subsection \<open>State, snapshots and files\<close>

text \<open>
  The solution field is an array of floating-point values. Only the split
  between finite and non-finite values matters to the driver, so a value is a
  real number, one of the two infinities or NaN. Times are real numbers.
\<close>

datatype fval = Fin real | PInf | NInf | NaN

definition np_isfinite :: "fval \<Rightarrow> bool" where
  "np_isfinite v = (case v of Fin x \<Rightarrow> True | PInf \<Rightarrow> False | NInf \<Rightarrow> False | NaN \<Rightarrow> False)"

definition fabs :: "fval \<Rightarrow> fval" where
  "fabs v = (case v of Fin x \<Rightarrow> Fin \<bar>x\<bar> | PInf \<Rightarrow> PInf | NInf \<Rightarrow> PInf | NaN \<Rightarrow> NaN)"

fun fmax :: "fval \<Rightarrow> fval \<Rightarrow> fval" where
  "fmax NaN b = NaN"
| "fmax a NaN = NaN"
| "fmax (Fin x) (Fin y) = Fin (max x y)"
| "fmax a b = PInf"

text \<open>
  Modelled from the spec: \<^verbatim>\<open>discr.norm(state, np.inf)\<close> belongs to the
  discretization library and is not under src/. The spec has the RHS evaluation
  detect "a non-finite value anywhere in the state"; the model is the largest
  absolute value, NaN and infinity propagating as numpy's maximum does.
\<close>

definition discr_norm_inf :: "fval list \<Rightarrow> fval" where
  "discr_norm_inf q = foldl (\<lambda>a v. fmax a (fabs v)) (Fin 0) q"

record mesh =
  nelements :: int

text \<open>The pickled mapping of a restart snapshot, one field per key.\<close>

record restart_record =
  r_local_mesh :: mesh
  r_state :: "fval list"
  r_t :: real
  r_step :: int
  r_global_nelements :: int
  r_num_parts :: int

text \<open>A YAML scalar as the loader returns it for a numeric entry, or null.\<close>

datatype yval = YInt int | YFloat real | YNull

record files =
  pickles :: "string \<rightharpoonup> restart_record"
  yamls :: "string \<rightharpoonup> (string \<rightharpoonup> yval)"

definition file_exists :: "files \<Rightarrow> string \<Rightarrow> bool" where
  "file_exists fs p = (yamls fs p \<noteq> None \<or> pickles fs p \<noteq> None)"

record run_params =
  p_nviz :: int
  p_nrestart :: int
  p_current_dt :: real
  p_t_final :: real

record mpi =
  mpi_rank :: int
  mpi_size :: int

text \<open>The arguments \<^verbatim>\<open>sim_checkpoint\<close> is called with that the driver chooses.\<close>

record sim_call =
  sc_step :: int
  sc_t :: real
  sc_dt :: real
  sc_nviz :: int
  sc_state :: "fval list"

datatype event =
    LogInfo string
  | PrintControl run_params
  | InitLogmgr
  | MakeContext
  | PhysicsSetup
  | OpenRead string
  | MakeDiscretization
  | LogmgrWatches
  | MakeVisualizer
  | AdvanceState int real
  | WriteRestart string restart_record
  | SimCheckpoint sim_call
  | LogmgrClose

fun restart_writes :: "event list \<Rightarrow> (string \<times> restart_record) list" where
  "restart_writes [] = []"
| "restart_writes (WriteRestart n r # es) = (n, r) # restart_writes es"
| "restart_writes (e # es) = restart_writes es"

subsection \<open>Configuration loader\<close>

definition default_params :: run_params where
  "default_params = \<lparr> p_nviz = 5, p_nrestart = 5, p_current_dt = 5 / 10 ^ 8, p_t_final = 25 / 10 ^ 8 \<rparr>"

definition dict_get :: "(string \<rightharpoonup> 'v) \<Rightarrow> string \<Rightarrow> pyerr + 'v" where
  "dict_get d k = (case d k of None \<Rightarrow> Inl (KeyError k) | Some v \<Rightarrow> Inr v)"

text \<open>\<^verbatim>\<open>int(v)\<close> truncates a float towards zero; \<^verbatim>\<open>float(v)\<close> widens an int.\<close>

definition py_int_yval :: "yval \<Rightarrow> pyerr + int" where
  "py_int_yval v =
     (case v of
        YInt i \<Rightarrow> Inr i
      | YFloat r \<Rightarrow> Inr (if 0 \<le> r then \<lfloor>r\<rfloor> else \<lceil>r\<rceil>)
      | YNull \<Rightarrow> Inl TypeError)"

definition py_float_yval :: "yval \<Rightarrow> pyerr + real" where
  "py_float_yval v =
     (case v of
        YInt i \<Rightarrow> Inr (of_int i)
      | YFloat r \<Rightarrow> Inr r
      | YNull \<Rightarrow> Inl TypeError)"

definition get_int :: "(string \<rightharpoonup> yval) \<Rightarrow> string \<Rightarrow> pyerr + int" where
  "get_int d k = (case dict_get d k of Inl e \<Rightarrow> Inl e | Inr v \<Rightarrow> py_int_yval v)"

definition get_float :: "(string \<rightharpoonup> yval) \<Rightarrow> string \<Rightarrow> pyerr + real" where
  "get_float d k = (case dict_get d k of Inl e \<Rightarrow> Inl e | Inr v \<Rightarrow> py_float_yval v)"

text \<open>The four assignments from \<^verbatim>\<open>input_data\<close>, in the source's order.\<close>

definition params_of :: "(string \<rightharpoonup> yval) \<Rightarrow> pyerr + run_params" where
  "params_of input_data =
     (case get_int input_data ''nviz'' of
        Inl e \<Rightarrow> Inl e
      | Inr nviz \<Rightarrow>
         (case get_int input_data ''nrestart'' of
            Inl e \<Rightarrow> Inl e
          | Inr nrestart \<Rightarrow>
             (case get_float input_data ''current_dt'' of
                Inl e \<Rightarrow> Inl e
              | Inr current_dt \<Rightarrow>
                 (case get_float input_data ''t_final'' of
                    Inl e \<Rightarrow> Inl e
                  | Inr t_final \<Rightarrow>
                     Inr \<lparr> p_nviz = nviz, p_nrestart = nrestart,
                           p_current_dt = current_dt, p_t_final = t_final \<rparr>))))"

text \<open>
  Lines 123 to 141. \<^verbatim>\<open>yaml.load_all\<close> is a generator function: the call on the
  user's file only opens that file and parses nothing. The document that is
  parsed is the one read under \<^verbatim>\<open>with open('run2_params.yaml')\<close>.
\<close>

definition load_run_params :: "files \<Rightarrow> string \<Rightarrow> pyerr + run_params" where
  "load_run_params fs user_input_file =
     (if user_input_file \<noteq> [] then
        (if \<not> file_exists fs user_input_file then Inl (FileNotFoundError user_input_file)
         else (case yamls fs ''run2_params.yaml'' of
                 None \<Rightarrow> Inl (FileNotFoundError ''run2_params.yaml'')
               | Some input_data \<Rightarrow> params_of input_data))
      else Inr default_params)"

subsection \<open>Restart loader\<close>

record loaded =
  l_local_mesh :: mesh
  l_local_nelements :: int
  l_global_nelements :: int
  l_current_t :: real
  l_current_step :: int
  l_current_state :: "fval list"

text \<open>Lines 270 to 291: open and unpickle the snapshot of this rank, check the partition count, build the discretization.\<close>

definition process_restart ::
  "mpi \<Rightarrow> files \<Rightarrow> piece list \<Rightarrow> string \<Rightarrow> int \<Rightarrow> event list \<times> (pyerr + loaded)" where
  "process_restart m fs snapshot_pattern restart_name restart_step =
     (let fname = format_pattern snapshot_pattern restart_name restart_step (mpi_rank m)
      in case pickles fs fname of
           None \<Rightarrow> ([], Inl (FileNotFoundError fname))
         | Some restart_data \<Rightarrow>
            (if mpi_size m \<noteq> r_num_parts restart_data then ([OpenRead fname], Inl AssertionError)
             else ([OpenRead fname]
                   @ (if mpi_rank m = 0 then [LogInfo ''Making discretization''] else [])
                   @ [MakeDiscretization],
                   Inr \<lparr> l_local_mesh = r_local_mesh restart_data,
                         l_local_nelements = nelements (r_local_mesh restart_data),
                         l_global_nelements = r_global_nelements restart_data,
                         l_current_t = r_t restart_data,
                         l_current_step = restart_step,
                         l_current_state = r_state restart_data \<rparr>)))"

subsection \<open>The closures of \<^verbatim>\<open>run_flame\<close>\<close>

text \<open>What \<^verbatim>\<open>my_rhs\<close> and \<^verbatim>\<open>my_checkpoint\<close> capture from the enclosing call.\<close>

record ctx =
  c_rank :: int
  c_nparts :: int
  c_casename :: string
  c_snapshot_pattern :: "piece list"
  c_restart_step :: int
  c_nviz :: int
  c_nrestart :: int
  c_current_dt :: real
  c_t_final :: real
  c_local_mesh :: mesh
  c_global_nelements :: int

type_synonym sim_checkpoint_fn = "sim_call \<Rightarrow> pyerr + unit"

type_synonym rhs_operator = "real \<Rightarrow> fval list \<Rightarrow> fval list"

type_synonym rhs_fn = "real \<Rightarrow> fval list \<Rightarrow> event list \<times> (pyerr + fval list)"

type_synonym checkpoint_fn =
  "int \<Rightarrow> real \<Rightarrow> real \<Rightarrow> fval list \<Rightarrow> files \<Rightarrow> event list \<times> files \<times> (pyerr + unit)"

text \<open>
  \<^verbatim>\<open>advance_state\<close> of the stepper library, a parameter of the model: it is
  given the two closures, the state, \<^verbatim>\<open>t_final\<close>, the start time and step and
  the fixed timestep behind \<^verbatim>\<open>get_timestep\<close>, and returns the final step,
  time and state, or the error that ended it.
\<close>

type_synonym advance_state_fn =
  "rhs_fn \<Rightarrow> checkpoint_fn \<Rightarrow> fval list \<Rightarrow> real \<Rightarrow> real \<Rightarrow> int \<Rightarrow> real \<Rightarrow> files
   \<Rightarrow> event list \<times> files \<times> (pyerr + (int \<times> real \<times> fval list))"

text \<open>
  Name resolution. A free name of a closure is looked up in the closure's own
  parameters, then among the names \<^verbatim>\<open>run_flame\<close> binds, then among the
  module's names, then among the builtins; a name bound nowhere raises
  NameError when it is evaluated. The lists are the names the source binds by
  parameter, assignment, import, \<^verbatim>\<open>with\<close> and \<^verbatim>\<open>def\<close>.
\<close>

definition run_flame_locals :: "string list" where
  "run_flame_locals =
     [''ctx_factory'', ''casename'', ''user_input_file'', ''snapshot_pattern'',
      ''restart_step'', ''restart_name'', ''use_logmgr'', ''MPI'', ''comm'', ''rank'',
      ''nparts'', ''logmgr'', ''cl_ctx'', ''queue'', ''actx'', ''nviz'', ''nrestart'',
      ''current_dt'', ''t_final'', ''input_data'', ''f'', ''dim'', ''order'', ''exittol'',
      ''current_cfl'', ''current_t'', ''constant_cfl'', ''nstatus'', ''checkpoint_t'',
      ''current_step'', ''vel_burned'', ''vel_unburned'', ''get_mechanism_cti'',
      ''mech_cti'', ''cantera_soln'', ''nspecies'', ''temp_unburned'', ''temp_ignition'',
      ''equiv_ratio'', ''ox_di_ratio'', ''stoich_ratio'', ''i_fu'', ''i_ox'', ''i_di'', ''x'',
      ''one_atm'', ''pres_unburned'', ''y_unburned'', ''can_t'', ''rho_unburned'', ''can_p'',
      ''temp_burned'', ''rho_burned'', ''y_burned'', ''pres_burned'',
      ''pyrometheus_mechanism'', ''mu'', ''kappa'', ''species_diffusivity'',
      ''transport_model'', ''eos'', ''species_names'', ''flame_start_loc'', ''flame_speed'',
      ''inflow_init'', ''outflow_init'', ''inflow'', ''outflow'', ''wall'', ''sym'',
      ''boundaries'', ''restart_data'', ''local_mesh'', ''local_nelements'',
      ''global_nelements'', ''discr'', ''nodes'', ''current_state'', ''vis_timer'',
      ''visualizer'', ''timestepper'', ''get_timestep'', ''my_rhs'', ''my_checkpoint'']"

definition module_names :: "string list" where
  "module_names =
     [''yaml'', ''logging'', ''np'', ''cl'', ''la'', ''cla'', ''partial'', ''math'',
      ''obj_array_vectorize'', ''pickle'', ''PyOpenCLArrayContext'', ''thaw'', ''flatten'',
      ''unflatten'', ''BTAG_ALL'', ''BTAG_NONE'', ''EagerDGDiscretization'',
      ''make_visualizer'', ''PyOpenCLProfilingArrayContext'', ''euler_operator'',
      ''ns_operator'', ''split_conserved'', ''inviscid_sim_timestep'', ''sim_checkpoint'',
      ''check_step'', ''generate_and_distribute_mesh'', ''make_init_message'',
      ''mpi_entry_point'', ''cl_tools'', ''rk4_step'', ''lsrk54_step'', ''lsrk144_step'',
      ''euler_step'', ''advance_state'', ''PrescribedViscousBoundary'',
      ''PlanarDiscontinuity'', ''MixtureInitializer'', ''SimpleTransport'',
      ''PyrometheusMixture'', ''cantera'', ''pyro'', ''IntervalTimer'',
      ''extract_vars_for_logging'', ''units_for_logging'', ''initialize_logmgr'',
      ''logmgr_add_many_discretization_quantities'', ''logmgr_add_cl_device_info'',
      ''logmgr_set_time'', ''logmgr_add_device_memory_usage'', ''logger'', ''run_flame'',
      ''sys'', ''os'', ''argparse'', ''parser'', ''args'', ''casename'', ''snapshot_pattern'',
      ''restart_step'', ''restart_name'', ''file_path'', ''file_name'', ''input_file'']"

definition builtin_names :: "string list" where
  "builtin_names =
     [''exit'', ''print'', ''open'', ''int'', ''float'', ''ascii'', ''ValueError'',
      ''KeyError'', ''True'', ''False'', ''None'']"

definition first_unbound :: "string list \<Rightarrow> string list \<Rightarrow> string option" where
  "first_unbound scope names = find (\<lambda>n. n \<notin> set scope) names"

definition my_rhs_scope :: "string list" where
  "my_rhs_scope = [''t'', ''state''] @ run_flame_locals @ module_names @ builtin_names"

text \<open>
  The names the emergency call evaluates, the callee first, then the keyword
  arguments from left to right (the literals among them need no lookup).
\<close>

definition emergency_call_names :: "string list" where
  "emergency_call_names =
     [''sim_checkpoint'', ''discr'', ''visualizer'', ''eos'', ''state'', ''casename'', ''t'',
      ''current_dt'', ''exittol'', ''constant_cfl'', ''comm'', ''vis_timer'', ''s0_sc'',
      ''kappa_sc'']"

text \<open>
  \<^verbatim>\<open>my_rhs\<close>, lines 321 to 338. \<open>sim_checkpoint\<close> and the sum of the
  Navier-Stokes operator and the species sources, \<open>rhs_op\<close>, are parameters.
\<close>

definition my_rhs :: "sim_checkpoint_fn \<Rightarrow> rhs_operator \<Rightarrow> ctx \<Rightarrow> rhs_fn" where
  "my_rhs sim_checkpoint rhs_op c t state =
     (let inf_exists = \<not> np_isfinite (discr_norm_inf state)
      in if inf_exists then
           (let ev = (if c_rank c = 0
                      then [LogInfo ''Non-finite values detected in simulation, exiting...'']
                      else [])
            in case first_unbound my_rhs_scope emergency_call_names of
                 Some n \<Rightarrow> (ev, Inl (NameError n))
               | None \<Rightarrow>
                  (let call = \<lparr> sc_step = 999999999, sc_t = t, sc_dt = c_current_dt c,
                                sc_nviz = 1, sc_state = state \<rparr>
                   in case sim_checkpoint call of
                        Inl e \<Rightarrow> (ev @ [SimCheckpoint call], Inl e)
                      | Inr u \<Rightarrow> (ev @ [SimCheckpoint call], Inl SystemExit)))
         else ([], Inr (rhs_op t state)))"

text \<open>
  Modelled from the spec: \<^verbatim>\<open>check_step\<close> belongs to the simulation utility
  library and is not under src/. The spec gives the restart test as
  \<^verbatim>\<open>step % nrestart == 0\<close>; Python's \<^verbatim>\<open>%\<close> raises ZeroDivisionError on a zero
  interval and takes the sign of the divisor otherwise, as \<open>mod\<close> on \<open>int\<close> does.
\<close>

definition check_step :: "int \<Rightarrow> int \<Rightarrow> pyerr + bool" where
  "check_step step interval =
     (if interval = 0 then Inl ZeroDivisionError else Inr (step mod interval = 0))"

text \<open>\<^verbatim>\<open>my_checkpoint\<close>, lines 340 to 364.\<close>

definition my_checkpoint :: "sim_checkpoint_fn \<Rightarrow> ctx \<Rightarrow> checkpoint_fn" where
  "my_checkpoint sim_checkpoint c step t dt state fs =
     (case (if step \<noteq> c_restart_step c then check_step step (c_nrestart c) else Inr False) of
        Inl e \<Rightarrow> ([], fs, Inl e)
      | Inr write_restart \<Rightarrow>
         (let fname = format_pattern (c_snapshot_pattern c) (c_casename c) step (c_rank c);
              rec = \<lparr> r_local_mesh = c_local_mesh c, r_state = state, r_t = t, r_step = step,
                      r_global_nelements = c_global_nelements c, r_num_parts = c_nparts c \<rparr>;
              ev = (if write_restart then [WriteRestart fname rec] else []);
              fs' = (if write_restart then fs \<lparr> pickles := (pickles fs)(fname \<mapsto> rec) \<rparr> else fs);
              call = \<lparr> sc_step = step, sc_t = t, sc_dt = dt, sc_nviz = c_nviz c,
                       sc_state = state \<rparr>
          in (ev @ [SimCheckpoint call], fs', sim_checkpoint call)))"

subsection \<open>\<^verbatim>\<open>run_flame\<close>\<close>

definition effective_restart_name :: "run_args \<Rightarrow> string" where
  "effective_restart_name a = (case a_restart_name a of None \<Rightarrow> a_casename a | Some n \<Rightarrow> n)"

definition make_ctx :: "mpi \<Rightarrow> run_args \<Rightarrow> int \<Rightarrow> run_params \<Rightarrow> loaded \<Rightarrow> ctx" where
  "make_ctx m a restart_step prm ld =
     \<lparr> c_rank = mpi_rank m, c_nparts = mpi_size m, c_casename = a_casename a,
       c_snapshot_pattern = a_snapshot_pattern a, c_restart_step = restart_step,
       c_nviz = p_nviz prm, c_nrestart = p_nrestart prm,
       c_current_dt = p_current_dt prm, c_t_final = p_t_final prm,
       c_local_mesh = l_local_mesh ld, c_global_nelements = l_global_nelements ld \<rparr>"

text \<open>
  Lines 376 to 389, after \<^verbatim>\<open>advance_state\<close> has returned. \<^verbatim>\<open>checkpoint_t\<close>
  was assigned the initial \<^verbatim>\<open>current_t = 0\<close> on line 158 and never again.
  The value is how the process ends: every path ends in an exception or in
  \<^verbatim>\<open>exit()\<close>.
\<close>

definition run_flame_finish ::
  "sim_checkpoint_fn \<Rightarrow> ctx \<Rightarrow> bool \<Rightarrow> int \<times> real \<times> fval list \<Rightarrow> files
   \<Rightarrow> event list \<times> files \<times> pyerr" where
  "run_flame_finish sim_checkpoint c logmgr res fs =
     (case res of (current_step, current_t, current_state) \<Rightarrow>
        (let ev0 = (if c_rank c = 0 then [LogInfo ''Checkpointing final state ...''] else []);
             checkpoint_t = 0
         in case my_checkpoint sim_checkpoint c current_step current_t
                   (current_t - checkpoint_t) current_state fs of
              (ev1, fs1, r) \<Rightarrow>
                (case r of
                   Inl e \<Rightarrow> (ev0 @ ev1, fs1, e)
                 | Inr u \<Rightarrow>
                    (if current_t - c_t_final c < 0
                     then (ev0 @ ev1, fs1, ValueError ''Simulation exited abnormally'')
                     else (ev0 @ ev1 @ (if logmgr then [LogmgrClose] else []), fs1, SystemExit)))))"

text \<open>
  \<^verbatim>\<open>run_flame\<close>. The logging manager exists exactly when \<^verbatim>\<open>use_logmgr\<close> is
  set; the set-up of the thermochemistry, the boundaries and the array
  context is one event each, and so is the call of \<^verbatim>\<open>advance_state\<close> with
  the step and time it starts from.
\<close>

definition run_flame ::
  "sim_checkpoint_fn \<Rightarrow> rhs_operator \<Rightarrow> advance_state_fn \<Rightarrow> mpi \<Rightarrow> run_args \<Rightarrow> files
   \<Rightarrow> event list \<times> files \<times> pyerr" where
  "run_flame sim_checkpoint rhs_op advance_state m a fs =
     (case a_restart_step a of
        None \<Rightarrow>
          ((if mpi_rank m = 0
            then [LogInfo ''Driver only supports restart, not initialization''] else []),
           fs, SystemExit)
      | Some restart_step \<Rightarrow>
          (let restart_name = effective_restart_name a;
               ev0 = [InitLogmgr, MakeContext]
           in case load_run_params fs (a_user_input_file a) of
                Inl e \<Rightarrow> (ev0, fs, e)
              | Inr prm \<Rightarrow>
                 (let ev1 = ev0 @ (if mpi_rank m = 0 then [PrintControl prm] else [])
                                @ [PhysicsSetup]
                  in case process_restart m fs (a_snapshot_pattern a) restart_name restart_step of
                       (evr, Inl e) \<Rightarrow> (ev1 @ evr, fs, e)
                     | (evr, Inr ld) \<Rightarrow>
                        (let c = make_ctx m a restart_step prm ld;
                             ev2 = ev1 @ evr
                                   @ (if a_use_logmgr a then [LogmgrWatches] else [])
                                   @ [MakeVisualizer]
                                   @ (if mpi_rank m = 0 then [LogInfo ''Stepping.''] else [])
                                   @ [AdvanceState (l_current_step ld) (l_current_t ld)]
                         in case advance_state (my_rhs sim_checkpoint rhs_op c)
                                   (my_checkpoint sim_checkpoint c) (l_current_state ld)
                                   (p_t_final prm) (l_current_t ld) (l_current_step ld)
                                   (p_current_dt prm) fs of
                              (eva, fs1, Inl e) \<Rightarrow> (ev2 @ eva, fs1, e)
                            | (eva, fs1, Inr res) \<Rightarrow>
                               (case run_flame_finish sim_checkpoint c (a_use_logmgr a) res fs1 of
                                  (evf, fs2, e) \<Rightarrow> (ev2 @ eva @ evf, fs2, e))))))"

text \<open>The script as a whole: the \<^verbatim>\<open>__main__\<close> block, then \<^verbatim>\<open>run_flame\<close>.\<close>

definition main ::
  "sim_checkpoint_fn \<Rightarrow> rhs_operator \<Rightarrow> advance_state_fn \<Rightarrow> mpi \<Rightarrow> cli \<Rightarrow> files
   \<Rightarrow> event list \<times> files \<times> pyerr" where
  "main sim_checkpoint rhs_op advance_state m cl fs =
     (case main_args cl of
        Inl e \<Rightarrow> ([], fs, e)
      | Inr a \<Rightarrow> run_flame sim_checkpoint rhs_op advance_state m a fs)"

subsection \<open>Character classes and sample runs used in the statements\<close>

text \<open>
  A character that \<^verbatim>\<open>ascii\<close> leaves as it is inside apostrophes: printable
  ASCII other than the apostrophe and the backslash.
\<close>

definition plain_char :: "char \<Rightarrow> bool" where
  "plain_char c =
     (32 \<le> (of_char c :: nat) \<and> (of_char c :: nat) < 127 \<and> c \<noteq> apos \<and> c \<noteq> backslash)"

text \<open>A case name of plain characters that holds neither the separator nor a slash.\<close>

definition plain_name :: "string \<Rightarrow> bool" where
  "plain_name s = (list_all plain_char s \<and> dash \<notin> set s \<and> slash \<notin> set s)"

definition is_digit :: "char \<Rightarrow> bool" where
  "is_digit c = (digit_val c \<noteq> None)"

definition dec_step :: "nat \<Rightarrow> char \<Rightarrow> nat" where
  "dec_step a c = 10 * a + the (digit_val c)"

text \<open>
  A run on one rank restarted from step 5 with the default parameters, a
  \<^verbatim>\<open>sim_checkpoint\<close> that returns normally, and a stepper that makes no step.
\<close>

definition sim_ok :: sim_checkpoint_fn where
  "sim_ok call = Inr ()"

definition rhs_id :: rhs_operator where
  "rhs_id t q = q"

definition adv_zero :: advance_state_fn where
  "adv_zero rhs checkpoint state t_final t istep dt fs = ([], fs, Inr (istep, t, state))"

definition ctx0 :: ctx where
  "ctx0 = \<lparr> c_rank = 0, c_nparts = 1, c_casename = ''flame1d'',
       c_snapshot_pattern = main_snapshot_pattern, c_restart_step = 5, c_nviz = 5,
       c_nrestart = 5, c_current_dt = 5 / 10 ^ 8, c_t_final = 25 / 10 ^ 8,
       c_local_mesh = \<lparr> nelements = 4 \<rparr>, c_global_nelements = 4 \<rparr>"

definition snap0 :: restart_record where
  "snap0 = \<lparr> r_local_mesh = \<lparr> nelements = 4 \<rparr>, r_state = [Fin 1, Fin 2], r_t = 25 / 10 ^ 8,
             r_step = 5, r_global_nelements = 4, r_num_parts = 1 \<rparr>"

definition fs0 :: files where
  "fs0 = \<lparr> pickles = [''flame1d-000005-0000.pkl'' \<mapsto> snap0], yamls = Map.empty \<rparr>"

definition args0 :: run_args where
  "args0 = \<lparr> a_casename = ''flame1d'', a_user_input_file = [],
             a_snapshot_pattern = main_snapshot_pattern, a_restart_step = Some 5,
             a_restart_name = Some ''flame1d'', a_use_logmgr = True \<rparr>"

definition loaded0 :: loaded where
  "loaded0 = \<lparr> l_local_mesh = \<lparr> nelements = 4 \<rparr>, l_local_nelements = 4,
               l_global_nelements = 4, l_current_t = 25 / 10 ^ 8, l_current_step = 5,
               l_current_state = [Fin 1, Fin 2] \<rparr>"

definition mpi1 :: mpi where
  "mpi1 = \<lparr> mpi_rank = 0, mpi_size = 1 \<rparr>"


text \<open>
  A file store with a user configuration \<^verbatim>\<open>my.yaml\<close> next to a
  \<^verbatim>\<open>run2_params.yaml\<close> of different values, a command line without \<^verbatim>\<open>-i\<close>,
  and the case name \<^verbatim>\<open>a'b\<close>.
\<close>

definition my_doc :: "string \<rightharpoonup> yval" where
  "my_doc = [''nviz'' \<mapsto> YInt 1, ''nrestart'' \<mapsto> YInt 1,
             ''current_dt'' \<mapsto> YFloat (1 / 10 ^ 8), ''t_final'' \<mapsto> YFloat (1 / 10 ^ 7)]"

definition run2_doc :: "string \<rightharpoonup> yval" where
  "run2_doc = [''nviz'' \<mapsto> YInt 7, ''nrestart'' \<mapsto> YInt 9,
               ''current_dt'' \<mapsto> YFloat (2 / 10 ^ 8), ''t_final'' \<mapsto> YInt 3]"

definition fs3 :: files where
  "fs3 = \<lparr> pickles = Map.empty,
           yamls = [''my.yaml'' \<mapsto> my_doc, ''run2_params.yaml'' \<mapsto> run2_doc] \<rparr>"

definition cli0 :: cli where
  "cli0 = \<lparr> cli_restart_file = Some ''flame1d-000005-0000.pkl'', cli_input_file = None,
            cli_casename = None \<rparr>"

definition a_apos_b :: string where
  "a_apos_b = [CHR ''a'', CHR 0x27, CHR ''b'']"

subsection \<open>Auxiliary facts\<close>

declare str_of_nat.simps [simp del]

lemma digit_val_digit_char: "d < 10 \<Longrightarrow> digit_val (digit_char d) = Some d"
proof -
  assume "d < 10"
  then have "d \<in> {0, 1, 2, 3, 4, 5, 6, 7, 8, 9}"
    by auto
  then show ?thesis
    by (auto simp add: digit_val_def digit_char_def Let_def)
qed

lemma is_digit_digit_char: "is_digit (digit_char (d mod 10))"
  using digit_val_digit_char [of "d mod 10"] by (simp add: is_digit_def)

lemma is_digit_plain: "is_digit c \<Longrightarrow> plain_char c \<and> c \<noteq> dash \<and> c \<noteq> slash \<and> c \<noteq> dquote \<and> \<not> py_isspace c \<and> c \<noteq> CHR ''+''"
  by (auto simp add: is_digit_def digit_val_def Let_def plain_char_def dash_def slash_def dquote_def
      apos_def backslash_def py_isspace_def split: if_splits)

lemma str_of_nat_digits: "list_all is_digit (str_of_nat n)"
proof (induction n rule: str_of_nat.induct)
  case (1 n)
  show ?case
  proof (cases "n < 10")
    case True
    then show ?thesis using is_digit_digit_char [of n] by (simp add: str_of_nat.simps [of n])
  next
    case False
    then show ?thesis using 1 is_digit_digit_char [of n] by (simp add: str_of_nat.simps [of n])
  qed
qed

lemma str_of_nat_nonempty: "str_of_nat n \<noteq> []"
  by (simp add: str_of_nat.simps [of n])

lemma zero_is_digit: "is_digit (CHR ''0'')"
  by (simp add: is_digit_def digit_val_def Let_def)

lemma zero_pad_digits: "list_all is_digit (zero_pad w (str_of_nat n))"
  using str_of_nat_digits [of n] zero_is_digit by (auto simp add: zero_pad_def list_all_iff)

lemma zero_pad_nonempty: "zero_pad w (str_of_nat n) \<noteq> []"
  by (simp add: zero_pad_def str_of_nat_nonempty)

lemma int_body_digits:
  "list_all is_digit xs \<Longrightarrow>
   int_body (xs @ ys) p acc = int_body ys (p \<or> xs \<noteq> []) (foldl dec_step acc xs)"
proof (induction xs arbitrary: p acc)
  case Nil
  then show ?case by simp
next
  case (Cons c cs)
  then obtain d where d: "digit_val c = Some d" by (auto simp add: is_digit_def)
  from Cons show ?case by (simp add: d dec_step_def)
qed

lemma foldl_dec_str_of_nat:
  "foldl dec_step acc (str_of_nat n) = acc * 10 ^ length (str_of_nat n) + n"
proof (induction n arbitrary: acc rule: str_of_nat.induct)
  case (1 n)
  show ?case
  proof (cases "n < 10")
    case True
    then show ?thesis
      by (simp add: str_of_nat.simps [of n] dec_step_def digit_val_digit_char)
  next
    case False
    have m: "digit_val (digit_char (n mod 10)) = Some (n mod 10)"
      by (rule digit_val_digit_char) simp
    from False 1 [of acc] show ?thesis
      by (simp add: str_of_nat.simps [of n] dec_step_def m algebra_simps)
  qed
qed

lemma foldl_dec_zeros: "foldl dec_step 0 (replicate k (CHR ''0'')) = 0"
  by (induction k) (simp_all add: dec_step_def digit_val_def Let_def)

lemma foldl_dec_zero_pad: "foldl dec_step 0 (zero_pad w (str_of_nat n)) = n"
  by (simp add: zero_pad_def foldl_dec_zeros foldl_dec_str_of_nat)

lemma int_body_zero_pad: "int_body (zero_pad w (str_of_nat n)) False 0 = Some n"
  using int_body_digits [OF zero_pad_digits, of w n "[]" False 0]
  by (simp add: foldl_dec_zero_pad zero_pad_nonempty)

lemma py_strip_id:
  assumes "list_all (\<lambda>c. \<not> py_isspace c) s"
  shows "py_strip s = s"
proof (cases s)
  case Nil
  then show ?thesis by (simp add: py_strip_def)
next
  case (Cons c cs)
  with assms have a: "dropWhile py_isspace s = s" by simp
  from Cons have ne: "s \<noteq> []" by simp
  with assms have "\<not> py_isspace (last s)"
    by (metis last_in_set list_all_iff)
  then have "dropWhile py_isspace (rev s) = rev s"
    using ne by (simp add: dropWhile_eq_self_iff hd_rev del: last.simps)
  with a show ?thesis by (simp add: py_strip_def)
qed

lemma py_int_str_zero_pad: "py_int_str (zero_pad w (str_of_nat n)) = Inr (int n)"
proof -
  let ?s = "zero_pad w (str_of_nat n)"
  have d: "list_all is_digit ?s" by (rule zero_pad_digits)
  have ne: "?s \<noteq> []" by (rule zero_pad_nonempty)
  have "list_all (\<lambda>c. \<not> py_isspace c) ?s"
    using d is_digit_plain by (auto simp add: list_all_iff)
  then have s: "py_strip ?s = ?s" by (rule py_strip_id)
  have "is_digit (hd ?s)" using d ne by (cases ?s) simp_all
  then have h: "hd ?s \<noteq> dash \<and> hd ?s \<noteq> CHR ''+''" using is_digit_plain by blast
  show ?thesis
    by (simp add: py_int_str_def s h ne int_body_zero_pad Let_def)
qed

lemma repr_char_plain: "plain_char c \<Longrightarrow> c \<noteq> q \<Longrightarrow> repr_char q c = [c]"
  by (auto simp add: plain_char_def repr_char_def)

lemma repr_plain: "list_all plain_char s \<Longrightarrow> q \<notin> set s \<Longrightarrow> concat (map (repr_char q) s) = s"
  by (induction s) (auto simp add: repr_char_plain)

lemma repr_quote_cases: "repr_quote s = apos \<or> repr_quote s = dquote"
  by (simp add: repr_quote_def)

lemma repr_quote_fresh:
  assumes "apos \<notin> set b" and "set b \<subseteq> set s"
  shows "repr_quote s \<notin> set b"
  using assms by (auto simp add: repr_quote_def)

lemma plain_slash: "plain_char slash"
  by (simp add: plain_char_def slash_def apos_def backslash_def)

lemma plain_dash: "plain_char dash"
  by (simp add: plain_char_def dash_def apos_def backslash_def)

lemma os_path_split_tail:
  assumes "slash \<notin> set ys"
  shows "snd (os_path_split (xs @ slash # ys)) = ys"
proof -
  have "takeWhile (\<lambda>c. c \<noteq> slash) (rev ys @ slash # rev xs) = rev ys"
    using assms by (auto simp add: takeWhile_tail)
  then show ?thesis by (simp add: os_path_split_def Let_def)
qed

lemma os_path_split_noslash:
  assumes "slash \<notin> set p"
  shows "snd (os_path_split p) = p"
proof -
  have "\<forall>c\<in>set (rev p). c \<noteq> slash"
    using assms by auto
  then have "takeWhile (\<lambda>c. c \<noteq> slash) (rev p) = rev p"
    by (simp only: takeWhile_eq_all_conv)
  then show ?thesis by (simp only: os_path_split_def Let_def rev_rev_ident snd_conv)
qed

lemma split_on_first:
  "sep \<notin> set a \<Longrightarrow> split_on sep (a @ sep # r) = a # split_on sep r"
  by (induction a) auto

lemma format_main:
  "format_pattern main_snapshot_pattern cn (int st) (int rk) =
     cn @ dash # zero_pad 6 (str_of_nat st) @ dash # zero_pad 4 (str_of_nat rk) @ ''.pkl''"
  by (simp add: format_pattern_def main_snapshot_pattern_def format_0d_def dash_def)

lemma digits_set:
  assumes "list_all is_digit s"
  shows "list_all plain_char s \<and> dash \<notin> set s \<and> slash \<notin> set s \<and> apos \<notin> set s"
  using assms is_digit_plain by (auto simp add: list_all_iff plain_char_def)

lemma main_restart_parts:
  assumes "dash \<notin> set p0" and "slash \<notin> set p0"
      and "slash \<notin> set r"
      and fn: "snd (os_path_split a) = p0 @ dash # zero_pad 6 (str_of_nat st) @ dash # r"
      and "a \<noteq> []"
  shows "main_restart (Some a) = Inr (Some (int st), Some (replace_apos p0))"
proof -
  have d: "dash \<notin> set (zero_pad 6 (str_of_nat st))"
    using digits_set [OF zero_pad_digits] by blast
  have "split_on dash (p0 @ dash # zero_pad 6 (str_of_nat st) @ dash # r)
        = p0 # zero_pad 6 (str_of_nat st) # split_on dash r"
    using assms(1) d by (simp add: split_on_first)
  then show ?thesis
    using assms(5) by (simp add: main_restart_def truthy_def fn list_get_def py_int_str_zero_pad Let_def)
qed

lemma main_restart_formatted:
  assumes cn: "plain_name cn"
      and dir: "dir = [] \<or> last dir = slash"
  shows "main_restart (parsed (Some (dir @ format_pattern main_snapshot_pattern cn (int st) (int rk))))
         = Inr (Some (int st), Some cn)"
proof -
  let ?p6 = "zero_pad 6 (str_of_nat st)"
  let ?p4 = "zero_pad 4 (str_of_nat rk)"
  let ?base = "cn @ dash # ?p6 @ dash # ?p4 @ ''.pkl''"
  let ?q = "repr_quote (dir @ ?base)"
  have base: "format_pattern main_snapshot_pattern cn (int st) (int rk) = ?base"
    by (rule format_main)
  have p6: "list_all plain_char ?p6 \<and> dash \<notin> set ?p6 \<and> slash \<notin> set ?p6 \<and> apos \<notin> set ?p6"
    by (rule digits_set [OF zero_pad_digits])
  have p4: "list_all plain_char ?p4 \<and> dash \<notin> set ?p4 \<and> slash \<notin> set ?p4 \<and> apos \<notin> set ?p4"
    by (rule digits_set [OF zero_pad_digits])
  have ext: "list_all plain_char ''.pkl'' \<and> slash \<notin> set ''.pkl'' \<and> apos \<notin> set ''.pkl''"
    by (simp add: plain_char_def slash_def apos_def backslash_def)
  from cn have cnp: "list_all plain_char cn" and cnd: "dash \<notin> set cn" and cns: "slash \<notin> set cn"
    by (simp_all add: plain_name_def)
  from cnp have cna: "apos \<notin> set cn"
    by (auto simp add: list_all_iff plain_char_def)
  have bp: "list_all plain_char ?base"
    using cnp p6 p4 ext plain_dash by simp
  have bs: "slash \<notin> set ?base"
    using cns p6 p4 ext by (simp add: slash_def dash_def)
  have ba: "apos \<notin> set ?base"
    using cna p6 p4 ext by (simp add: apos_def dash_def)
  have qb: "?q \<notin> set ?base"
    by (rule repr_quote_fresh [OF ba]) auto
  have qs: "?q \<noteq> slash"
    using repr_quote_cases [of "dir @ ?base"] by (auto simp add: slash_def apos_def dquote_def)
  have rb: "concat (map (repr_char ?q) ?base) = ?base"
    by (rule repr_plain [OF bp qb])
  have rcn: "replace_apos cn = cn"
    using cna by (auto simp add: replace_apos_def filter_id_conv)
  have tl_ok: "slash \<notin> set (?p4 @ ''.pkl'' @ [?q])"
    using p4 ext qs by simp
  show ?thesis
  proof (cases "dir = []")
    case True
    then have q: "?q = apos" using ba by (simp add: repr_quote_def)
    have a: "py_ascii (dir @ ?base) = apos # ?base @ [apos]"
      using True rb q by (simp add: py_ascii_def Let_def)
    have ns: "slash \<notin> set (apos # ?base @ [apos])"
      using bs by (simp add: slash_def apos_def)
    have eq: "apos # ?base @ [apos] = (apos # cn) @ dash # ?p6 @ dash # (?p4 @ ''.pkl'' @ [apos])"
      by simp
    have fn: "snd (os_path_split (apos # ?base @ [apos]))
              = (apos # cn) @ dash # ?p6 @ dash # (?p4 @ ''.pkl'' @ [apos])"
      by (rule trans [OF os_path_split_noslash [OF ns] eq])
    have "main_restart (Some (apos # ?base @ [apos])) = Inr (Some (int st), Some (replace_apos (apos # cn)))"
      by (rule main_restart_parts [OF _ _ _ fn])
         (use cnd cns p4 ext in \<open>simp_all add: dash_def apos_def slash_def\<close>)
    then show ?thesis
      using rcn by (simp add: parsed_def base a replace_apos_def)
  next
    case False
    with dir obtain d where d: "dir = d @ [slash]"
      by (metis append_butlast_last_id)
    have rs: "repr_char ?q slash = [slash]"
      using qs by (simp add: repr_char_plain plain_slash)
    have a: "py_ascii (dir @ ?base) = (?q # concat (map (repr_char ?q) d)) @ slash # (?base @ [?q])"
      using rb rs by (simp add: py_ascii_def Let_def d)
    have ns: "slash \<notin> set (?base @ [?q])"
      using bs qs by simp
    have fn0: "snd (os_path_split (py_ascii (dir @ ?base))) = ?base @ [?q]"
      unfolding a by (rule os_path_split_tail [OF ns])
    have eq: "?base @ [?q] = cn @ dash # ?p6 @ dash # (?p4 @ ''.pkl'' @ [?q])"
      by simp
    have fn: "snd (os_path_split (py_ascii (dir @ ?base)))
              = cn @ dash # ?p6 @ dash # (?p4 @ ''.pkl'' @ [?q])"
      by (rule trans [OF fn0 eq])
    have "main_restart (Some (py_ascii (dir @ ?base))) = Inr (Some (int st), Some (replace_apos cn))"
      by (rule main_restart_parts [OF cnd cns tl_ok fn]) (simp add: py_ascii_def Let_def)
    then show ?thesis
      using rcn by (simp add: parsed_def base)
  qed
qed

lemma py_ascii_nonempty: "py_ascii s \<noteq> []"
  by (simp add: py_ascii_def Let_def)

lemma replace_apos_free: "apos \<notin> set (replace_apos s)"
  by (simp add: replace_apos_def)

lemma main_casename_given: "main_casename (parsed (Some a)) = replace_apos (py_ascii a)"
  by (simp add: main_casename_def parsed_def truthy_def py_ascii_nonempty)

lemma py_ascii_plain:
  assumes "list_all plain_char a"
  shows "py_ascii a = apos # a @ [apos]"
proof -
  from assms have na: "apos \<notin> set a"
    by (auto simp add: list_all_iff plain_char_def)
  then have q: "repr_quote a = apos"
    by (simp add: repr_quote_def)
  show ?thesis
    using repr_plain [OF assms na] by (simp add: py_ascii_def q Let_def)
qed

lemma main_restart_name:
  assumes "main_restart (parsed (Some r)) = Inr (st, n)"
  shows "n = Some (replace_apos (hd (split_on dash (snd (os_path_split (py_ascii r))))))"
  using assms
  by (auto simp add: main_restart_def parsed_def truthy_def py_ascii_nonempty Let_def list_get_def
      hd_conv_nth split: sum.splits if_splits)

lemma fmax_finite: "np_isfinite (fmax a b) \<longleftrightarrow> np_isfinite a \<and> np_isfinite b"
  by (cases a; cases b) (simp_all add: np_isfinite_def)

lemma fabs_finite: "np_isfinite (fabs v) \<longleftrightarrow> np_isfinite v"
  by (cases v) (simp_all add: np_isfinite_def fabs_def)

lemma foldl_norm_finite:
  "np_isfinite (foldl (\<lambda>a v. fmax a (fabs v)) a0 q) \<longleftrightarrow> np_isfinite a0 \<and> list_all np_isfinite q"
  by (induction q arbitrary: a0) (auto simp add: fmax_finite fabs_finite)

lemma norm_finite: "np_isfinite (discr_norm_inf q) \<longleftrightarrow> list_all np_isfinite q"
proof -
  have "np_isfinite (Fin 0)" by (simp add: np_isfinite_def)
  then show ?thesis by (simp add: discr_norm_inf_def foldl_norm_finite)
qed

lemma emergency_unbound: "first_unbound my_rhs_scope emergency_call_names = Some ''s0_sc''"
  by (simp add: first_unbound_def my_rhs_scope_def emergency_call_names_def
      run_flame_locals_def module_names_def builtin_names_def)

lemma my_checkpoint_events:
  "fst (my_checkpoint sim_checkpoint c step t dt state fs) =
     (if step \<noteq> c_restart_step c \<and> c_nrestart c = 0 then []
      else (if step \<noteq> c_restart_step c \<and> step mod c_nrestart c = 0
            then [WriteRestart (format_pattern (c_snapshot_pattern c) (c_casename c) step (c_rank c))
                    \<lparr> r_local_mesh = c_local_mesh c, r_state = state, r_t = t, r_step = step,
                      r_global_nelements = c_global_nelements c, r_num_parts = c_nparts c \<rparr>]
            else [])
           @ [SimCheckpoint \<lparr> sc_step = step, sc_t = t, sc_dt = dt, sc_nviz = c_nviz c,
                              sc_state = state \<rparr>])"
  by (simp add: my_checkpoint_def check_step_def Let_def)

lemma my_checkpoint_writes:
  "restart_writes (fst (my_checkpoint sim_checkpoint c step t dt state fs)) =
     (if step \<noteq> c_restart_step c \<and> c_nrestart c \<noteq> 0 \<and> step mod c_nrestart c = 0
      then [(format_pattern (c_snapshot_pattern c) (c_casename c) step (c_rank c),
             \<lparr> r_local_mesh = c_local_mesh c, r_state = state, r_t = t, r_step = step,
               r_global_nelements = c_global_nelements c, r_num_parts = c_nparts c \<rparr>)]
      else [])"
  by (simp add: my_checkpoint_events)

lemma my_checkpoint_files:
  "fst (snd (my_checkpoint sim_checkpoint c step t dt state fs)) =
     (if step \<noteq> c_restart_step c \<and> c_nrestart c \<noteq> 0 \<and> step mod c_nrestart c = 0
      then fs \<lparr> pickles := (pickles fs)
             (format_pattern (c_snapshot_pattern c) (c_casename c) step (c_rank c) \<mapsto>
               \<lparr> r_local_mesh = c_local_mesh c, r_state = state, r_t = t, r_step = step,
                 r_global_nelements = c_global_nelements c, r_num_parts = c_nparts c \<rparr>) \<rparr>
      else fs)"
  by (simp add: my_checkpoint_def check_step_def Let_def)

lemma process_restart_found:
  assumes "pickles fs (format_pattern pat rname rstep (mpi_rank m)) = Some snap"
  shows "process_restart m fs pat rname rstep =
           (if mpi_size m \<noteq> r_num_parts snap
            then ([OpenRead (format_pattern pat rname rstep (mpi_rank m))], Inl AssertionError)
            else ([OpenRead (format_pattern pat rname rstep (mpi_rank m))]
                  @ (if mpi_rank m = 0 then [LogInfo ''Making discretization''] else [])
                  @ [MakeDiscretization],
                  Inr \<lparr> l_local_mesh = r_local_mesh snap,
                        l_local_nelements = nelements (r_local_mesh snap),
                        l_global_nelements = r_global_nelements snap,
                        l_current_t = r_t snap,
                        l_current_step = rstep,
                        l_current_state = r_state snap \<rparr>))"
  using assms by (simp add: process_restart_def Let_def)

lemma str_of_nat_small: "str_of_nat 0 = ''0''" "str_of_nat 5 = ''5''" "str_of_nat 10 = ''10''"
  by (simp_all add: str_of_nat.simps digit_char_def)

lemma zero_pad_small:
  "zero_pad 6 ''5'' = ''000005''" "zero_pad 6 ''10'' = ''000010''" "zero_pad 4 ''0'' = ''0000''"
  by (simp_all add: zero_pad_def eval_nat_numeral)

lemma name0: "format_pattern main_snapshot_pattern ''flame1d'' 5 0 = ''flame1d-000005-0000.pkl''"
  by (simp add: format_pattern_def main_snapshot_pattern_def format_0d_def
      str_of_nat_small zero_pad_small)

lemma name10: "format_pattern main_snapshot_pattern ''flame1d'' 10 0 = ''flame1d-000010-0000.pkl''"
  by (simp add: format_pattern_def main_snapshot_pattern_def format_0d_def
      str_of_nat_small zero_pad_small)

lemma format_step5:
  "format_pattern main_snapshot_pattern cn 5 0 = cn @ ''-000005-0000.pkl''"
  by (simp add: format_pattern_def main_snapshot_pattern_def format_0d_def
      str_of_nat_small zero_pad_small)

lemma plain_flame1d: "plain_name ''flame1d''"
  by (simp add: plain_name_def plain_char_def apos_def backslash_def dash_def slash_def)

lemma mpi1_fields: "mpi_rank mpi1 = 0" "mpi_size mpi1 = 1"
  by (simp_all add: mpi1_def)



lemma args0_snap:
  "pickles fs0 (format_pattern (a_snapshot_pattern args0) (effective_restart_name args0) 5 0) = Some snap0"
  by (simp add: args0_def effective_restart_name_def name0 fs0_def)

lemma params_of_run2:
  "params_of run2_doc = Inr \<lparr> p_nviz = 7, p_nrestart = 9, p_current_dt = 2 / 10 ^ 8, p_t_final = 3 \<rparr>"
  by (simp add: params_of_def run2_doc_def get_int_def get_float_def dict_get_def
      py_int_yval_def py_float_yval_def)

lemma process_restart0:
  "process_restart mpi1 fs0 main_snapshot_pattern ''flame1d'' 5 =
     ([OpenRead ''flame1d-000005-0000.pkl'', LogInfo ''Making discretization'',
       MakeDiscretization], Inr loaded0)"
  by (simp add: process_restart_def mpi1_fields name0 fs0_def snap0_def loaded0_def)

lemma write_at_10:
  "restart_writes (fst (my_checkpoint sim_ok (make_ctx mpi1 args0 5 default_params loaded0) 10
      (l_current_t loaded0) 0 (l_current_state loaded0) fs0))
   = [(''flame1d-000010-0000.pkl'',
       \<lparr> r_local_mesh = \<lparr> nelements = 4 \<rparr>, r_state = [Fin 1, Fin 2], r_t = 25 / 10 ^ 8,
         r_step = 10, r_global_nelements = 4, r_num_parts = 1 \<rparr>)]"
  by (simp add: my_checkpoint_writes make_ctx_def args0_def default_params_def loaded0_def
      mpi1_fields name10)

section \<open>Properties of the driver\<close>

subsection \<open>Non-finite states in the right-hand side\<close>

text \<open>
  C1. For every state with at least one non-finite value \<^verbatim>\<open>my_rhs\<close> is meant to
  write an emergency checkpoint with step marker 999999999 and then to exit.
  The code does not get that far: the call names \<^verbatim>\<open>s0_sc\<close> and \<^verbatim>\<open>kappa_sc\<close>,
  which nothing binds, so evaluating the arguments raises NameError before
  \<^verbatim>\<open>sim_checkpoint\<close> is called. On every such state the trace holds at most the
  log message, no checkpoint call, and the run ends in the NameError.
\<close>

theorem my_rhs_nonfinite:
  assumes "\<not> list_all np_isfinite state"
  shows "my_rhs sim_checkpoint rhs_op c t state =
           ((if c_rank c = 0
             then [LogInfo ''Non-finite values detected in simulation, exiting...''] else []),
            Inl (NameError ''s0_sc''))"
  using assms by (simp add: my_rhs_def norm_finite emergency_unbound Let_def)

theorem my_rhs_nonfinite_witness:
  "\<not> list_all np_isfinite [Fin 1, PInf] \<and>
   my_rhs (\<lambda>call. Inr ()) (\<lambda>t q. q) \<lparr> c_rank = 0, c_nparts = 1, c_casename = ''flame1d'',
       c_snapshot_pattern = main_snapshot_pattern, c_restart_step = 5, c_nviz = 5,
       c_nrestart = 5, c_current_dt = 5 / 10 ^ 8, c_t_final = 25 / 10 ^ 8,
       c_local_mesh = \<lparr> nelements = 4 \<rparr>, c_global_nelements = 4 \<rparr> 0 [Fin 1, PInf]
     = ([LogInfo ''Non-finite values detected in simulation, exiting...''],
        Inl (NameError ''s0_sc''))"
proof -
  have h: "\<not> list_all np_isfinite [Fin 1, PInf]"
    by (simp add: np_isfinite_def)
  show ?thesis
    using h my_rhs_nonfinite [OF h, of "\<lambda>call. Inr ()" "\<lambda>t q. q" _ 0] by simp
qed

subsection \<open>Restart cadence of the checkpoint callback\<close>




subsection \<open>The configuration file\<close>

text \<open>
  C3. When a configuration file is given, the run parameters are meant to be
  the values read from that file. The code opens the given file and then reads
  the fixed file \<^verbatim>\<open>run2_params.yaml\<close> instead: whenever the given file
  exists, \<^verbatim>\<open>nviz\<close>, \<^verbatim>\<open>nrestart\<close>, \<^verbatim>\<open>current_dt\<close> and \<^verbatim>\<open>t_final\<close> are
  the converted entries of \<^verbatim>\<open>run2_params.yaml\<close>, whatever the given file holds.
\<close>

theorem load_run_params_fixed_file:
  assumes "user_input_file \<noteq> []"
      and "file_exists fs user_input_file"
      and "yamls fs ''run2_params.yaml'' = Some d"
  shows "load_run_params fs user_input_file = params_of d"
  using assms by (simp add: load_run_params_def)

theorem load_run_params_fixed_file_witness:
  "''my.yaml'' \<noteq> [] \<and> file_exists fs3 ''my.yaml'' \<and> yamls fs3 ''my.yaml'' = Some my_doc
   \<and> yamls fs3 ''run2_params.yaml'' = Some run2_doc
   \<and> load_run_params fs3 ''my.yaml''
       = Inr \<lparr> p_nviz = 7, p_nrestart = 9, p_current_dt = 2 / 10 ^ 8, p_t_final = 3 \<rparr>"
proof -
  have e: "file_exists fs3 ''my.yaml''" by (simp add: file_exists_def fs3_def)
  have u: "yamls fs3 ''my.yaml'' = Some my_doc" by (simp add: fs3_def)
  have d: "yamls fs3 ''run2_params.yaml'' = Some run2_doc" by (simp add: fs3_def)
  have n: "''my.yaml'' \<noteq> []" by simp
  show ?thesis
    using load_run_params_fixed_file [OF n e d] e u d by (simp add: params_of_run2)
qed

subsection \<open>Partition count of the snapshot\<close>



subsection \<open>Final checkpoint and abnormal termination\<close>

text \<open>
  C5, as amended. When the step loop returns a time below \<^verbatim>\<open>t_final\<close> and the
  final call of \<^verbatim>\<open>my_checkpoint\<close> (with the final step, time and state)
  returns normally, \<^verbatim>\<open>run_flame\<close> makes that call first and ends in the
  abnormal-termination error after it. The call writes a restart file only
  under the cadence of the callback: when the final step is a multiple of
  \<^verbatim>\<open>nrestart\<close> and is not the restart step.
\<close>

theorem final_checkpoint_then_error:
  assumes early: "t < c_t_final c"
      and ok: "snd (snd (my_checkpoint sim_checkpoint c step t (t - 0) st fs)) = Inr ()"
  shows "run_flame_finish sim_checkpoint c logmgr (step, t, st) fs =
           ((if c_rank c = 0 then [LogInfo ''Checkpointing final state ...''] else [])
              @ fst (my_checkpoint sim_checkpoint c step t (t - 0) st fs),
            fst (snd (my_checkpoint sim_checkpoint c step t (t - 0) st fs)),
            ValueError ''Simulation exited abnormally'')
       \<and> SimCheckpoint \<lparr> sc_step = step, sc_t = t, sc_dt = t - 0, sc_nviz = c_nviz c,
                           sc_state = st \<rparr>
           \<in> set (fst (run_flame_finish sim_checkpoint c logmgr (step, t, st) fs))
       \<and> (restart_writes (fst (my_checkpoint sim_checkpoint c step t (t - 0) st fs)) \<noteq> []
            \<longleftrightarrow> c_nrestart c \<noteq> 0 \<and> step mod c_nrestart c = 0 \<and> step \<noteq> c_restart_step c)"
proof -
  obtain ev1 fs1 r where m: "my_checkpoint sim_checkpoint c step t (t - 0) st fs = (ev1, fs1, r)"
    by (cases "my_checkpoint sim_checkpoint c step t (t - 0) st fs") auto
  from ok m have r: "r = Inr ()" by simp
  have fin: "run_flame_finish sim_checkpoint c logmgr (step, t, st) fs =
          ((if c_rank c = 0 then [LogInfo ''Checkpointing final state ...''] else []) @ ev1, fs1,
           ValueError ''Simulation exited abnormally'')"
    using early m r by (simp add: run_flame_finish_def Let_def)
  have nz: "\<not> (step \<noteq> c_restart_step c \<and> c_nrestart c = 0)"
    using ok by (auto simp add: my_checkpoint_def check_step_def)
  have "SimCheckpoint \<lparr> sc_step = step, sc_t = t, sc_dt = t - 0, sc_nviz = c_nviz c,
                         sc_state = st \<rparr>
          \<in> set (fst (my_checkpoint sim_checkpoint c step t (t - 0) st fs))"
    using nz by (simp only: my_checkpoint_events) auto
  then have call: "SimCheckpoint \<lparr> sc_step = step, sc_t = t, sc_dt = t - 0, sc_nviz = c_nviz c,
                         sc_state = st \<rparr>
          \<in> set (fst (run_flame_finish sim_checkpoint c logmgr (step, t, st) fs))"
    using m by (simp add: fin)
  have cad: "restart_writes (fst (my_checkpoint sim_checkpoint c step t (t - 0) st fs)) \<noteq> []
            \<longleftrightarrow> c_nrestart c \<noteq> 0 \<and> step mod c_nrestart c = 0 \<and> step \<noteq> c_restart_step c"
    by (auto simp add: my_checkpoint_writes)
  from fin m have "run_flame_finish sim_checkpoint c logmgr (step, t, st) fs =
           ((if c_rank c = 0 then [LogInfo ''Checkpointing final state ...''] else [])
              @ fst (my_checkpoint sim_checkpoint c step t (t - 0) st fs),
            fst (snd (my_checkpoint sim_checkpoint c step t (t - 0) st fs)),
            ValueError ''Simulation exited abnormally'')"
    by simp
  with call cad show ?thesis by blast
qed

theorem final_checkpoint_then_error_witness:
  "(1 / 10 ^ 7 :: real) < c_t_final ctx0 \<and>
   snd (snd (my_checkpoint sim_ok ctx0 10 (1 / 10 ^ 7) (1 / 10 ^ 7 - 0) [Fin 1] fs0)) = Inr () \<and>
   snd (snd (run_flame_finish sim_ok ctx0 True (10, 1 / 10 ^ 7, [Fin 1]) fs0))
     = ValueError ''Simulation exited abnormally'' \<and>
   restart_writes (fst (my_checkpoint sim_ok ctx0 10 (1 / 10 ^ 7) (1 / 10 ^ 7 - 0) [Fin 1] fs0)) \<noteq> []"
proof -
  have e: "(1 / 10 ^ 7 :: real) < c_t_final ctx0"
    by (simp add: ctx0_def)
  have ok: "snd (snd (my_checkpoint sim_ok ctx0 10 (1 / 10 ^ 7) (1 / 10 ^ 7 - 0) [Fin 1] fs0)) = Inr ()"
    by (simp add: my_checkpoint_def check_step_def ctx0_def sim_ok_def Let_def)
  have c: "c_nrestart ctx0 \<noteq> 0 \<and> (10::int) mod c_nrestart ctx0 = 0 \<and> 10 \<noteq> c_restart_step ctx0"
    by (simp add: ctx0_def)
  show ?thesis
    using final_checkpoint_then_error [OF e ok, of True] e ok c by simp
qed

text \<open>
  Without the amendment the statement fails: a loop that returns at step 7 and time 1e-7, in a
  run restarted from step 5 with \<^verbatim>\<open>nrestart = 5\<close>, ends in the error with no
  restart file written and the file store unchanged.
\<close>

theorem final_checkpoint_counterexample:
  "run_flame_finish sim_ok ctx0 True (7, 1 / 10 ^ 7, [Fin 1]) fs0 =
     ([LogInfo ''Checkpointing final state ...'',
       SimCheckpoint \<lparr> sc_step = 7, sc_t = 1 / 10 ^ 7, sc_dt = 1 / 10 ^ 7, sc_nviz = 5,
                       sc_state = [Fin 1] \<rparr>],
      fs0, ValueError ''Simulation exited abnormally'')"
  by (simp add: run_flame_finish_def my_checkpoint_def check_step_def ctx0_def sim_ok_def Let_def)

subsection \<open>No restart step\<close>

text \<open>
  C6. When \<^verbatim>\<open>restart_step\<close> is \<^verbatim>\<open>None\<close>, \<^verbatim>\<open>run_flame\<close> exits at once: the
  trace holds at most the log message of rank 0, no snapshot is opened, no
  discretization is built, the step loop is not entered and no file changes.
\<close>

theorem run_flame_no_restart_step:
  assumes "a_restart_step a = None"
  shows "run_flame sim_checkpoint rhs_op advance_state m a fs =
           ((if mpi_rank m = 0
             then [LogInfo ''Driver only supports restart, not initialization''] else []),
            fs, SystemExit)"
  using assms by (simp add: run_flame_def)

theorem run_flame_no_restart_step_witness:
  "a_restart_step (args0 \<lparr> a_restart_step := None \<rparr>) = None \<and>
   run_flame sim_ok rhs_id adv_zero mpi1 (args0 \<lparr> a_restart_step := None \<rparr>) fs0 =
     ([LogInfo ''Driver only supports restart, not initialization''], fs0, SystemExit)"
  using run_flame_no_restart_step [of "args0 \<lparr> a_restart_step := None \<rparr>" sim_ok rhs_id adv_zero mpi1 fs0]
  by (simp add: mpi1_def)

subsection \<open>Restart round trip\<close>

text \<open>
  C7, as amended. For a snapshot whose \<^verbatim>\<open>num_parts\<close> is the world size the
  loader returns the persisted time and the restart step. The checkpoint after
  zero integrator steps is called at the restart step and is skipped: nothing
  is written and the file store stays as it is. Whatever record
  \<^verbatim>\<open>my_checkpoint\<close> does write for the loaded time and state, at any step,
  carries the snapshot's \<^verbatim>\<open>global_nelements\<close>, \<^verbatim>\<open>num_parts\<close> and \<^verbatim>\<open>t\<close>.
\<close>

theorem restart_round_trip:
  assumes snap: "pickles fs (format_pattern (a_snapshot_pattern a) (effective_restart_name a)
                   rstep (mpi_rank m)) = Some snap"
      and eq: "mpi_size m = r_num_parts snap"
  shows "\<exists>evs ld.
           process_restart m fs (a_snapshot_pattern a) (effective_restart_name a) rstep = (evs, Inr ld)
         \<and> l_current_t ld = r_t snap \<and> l_current_step ld = rstep
         \<and> restart_writes (fst (my_checkpoint sim_checkpoint (make_ctx m a rstep prm ld)
                (l_current_step ld) (l_current_t ld) dt (l_current_state ld) fs)) = []
         \<and> fst (snd (my_checkpoint sim_checkpoint (make_ctx m a rstep prm ld)
                (l_current_step ld) (l_current_t ld) dt (l_current_state ld) fs)) = fs
         \<and> (\<forall>(n, r) \<in> set (restart_writes (fst (my_checkpoint sim_checkpoint
                (make_ctx m a rstep prm ld) step (l_current_t ld) dt' (l_current_state ld) fs))).
               r_global_nelements r = r_global_nelements snap
             \<and> r_num_parts r = r_num_parts snap \<and> r_t r = r_t snap)"
proof -
  let ?ld = "\<lparr> l_local_mesh = r_local_mesh snap,
                l_local_nelements = nelements (r_local_mesh snap),
                l_global_nelements = r_global_nelements snap,
                l_current_t = r_t snap,
                l_current_step = rstep,
                l_current_state = r_state snap \<rparr>"
  let ?evs = "[OpenRead (format_pattern (a_snapshot_pattern a) (effective_restart_name a) rstep (mpi_rank m))]
              @ (if mpi_rank m = 0 then [LogInfo ''Making discretization''] else [])
              @ [MakeDiscretization]"
  have p: "process_restart m fs (a_snapshot_pattern a) (effective_restart_name a) rstep = (?evs, Inr ?ld)"
    using eq by (simp add: process_restart_found [OF snap])
  have c: "c_restart_step (make_ctx m a rstep prm ?ld) = rstep"
          "c_global_nelements (make_ctx m a rstep prm ?ld) = r_global_nelements snap"
          "c_nparts (make_ctx m a rstep prm ?ld) = r_num_parts snap"
    using eq by (simp_all add: make_ctx_def)
  have w0: "restart_writes (fst (my_checkpoint sim_checkpoint (make_ctx m a rstep prm ?ld)
                (l_current_step ?ld) (l_current_t ?ld) dt (l_current_state ?ld) fs)) = []"
    by (simp add: my_checkpoint_writes c)
  have f0: "fst (snd (my_checkpoint sim_checkpoint (make_ctx m a rstep prm ?ld)
                (l_current_step ?ld) (l_current_t ?ld) dt (l_current_state ?ld) fs)) = fs"
    by (simp add: my_checkpoint_files c)
  have w: "\<forall>(n, r) \<in> set (restart_writes (fst (my_checkpoint sim_checkpoint
                (make_ctx m a rstep prm ?ld) step (l_current_t ?ld) dt' (l_current_state ?ld) fs))).
               r_global_nelements r = r_global_nelements snap
             \<and> r_num_parts r = r_num_parts snap \<and> r_t r = r_t snap"
    by (simp add: my_checkpoint_writes c)
  have t: "l_current_t ?ld = r_t snap \<and> l_current_step ?ld = rstep" by simp
  from p t w0 f0 w show ?thesis by blast
qed

theorem restart_round_trip_witness:
  "pickles fs0 (format_pattern (a_snapshot_pattern args0) (effective_restart_name args0) 5
      (mpi_rank mpi1)) = Some snap0
   \<and> mpi_size mpi1 = r_num_parts snap0
   \<and> (\<exists>evs ld.
           process_restart mpi1 fs0 (a_snapshot_pattern args0) (effective_restart_name args0) 5 = (evs, Inr ld)
         \<and> l_current_t ld = r_t snap0 \<and> l_current_step ld = 5
         \<and> restart_writes (fst (my_checkpoint sim_ok (make_ctx mpi1 args0 5 default_params ld)
                (l_current_step ld) (l_current_t ld) 0 (l_current_state ld) fs0)) = []
         \<and> fst (snd (my_checkpoint sim_ok (make_ctx mpi1 args0 5 default_params ld)
                (l_current_step ld) (l_current_t ld) 0 (l_current_state ld) fs0)) = fs0
         \<and> (\<forall>(n, r) \<in> set (restart_writes (fst (my_checkpoint sim_ok
                (make_ctx mpi1 args0 5 default_params ld) 10 (l_current_t ld) 0 (l_current_state ld) fs0))).
               r_global_nelements r = r_global_nelements snap0
             \<and> r_num_parts r = r_num_parts snap0 \<and> r_t r = r_t snap0))
   \<and> snd (process_restart mpi1 fs0 (a_snapshot_pattern args0) (effective_restart_name args0) 5)
       = Inr loaded0
   \<and> restart_writes (fst (my_checkpoint sim_ok (make_ctx mpi1 args0 5 default_params loaded0) 10
          (l_current_t loaded0) 0 (l_current_state loaded0) fs0))
       = [(''flame1d-000010-0000.pkl'',
           \<lparr> r_local_mesh = \<lparr> nelements = 4 \<rparr>, r_state = [Fin 1, Fin 2], r_t = 25 / 10 ^ 8,
             r_step = 10, r_global_nelements = 4, r_num_parts = 1 \<rparr>)]"
proof -
  have s: "pickles fs0 (format_pattern (a_snapshot_pattern args0) (effective_restart_name args0) 5
      (mpi_rank mpi1)) = Some snap0"
    using args0_snap by (simp add: mpi1_def)
  have e: "mpi_size mpi1 = r_num_parts snap0"
    by (simp add: mpi1_def snap0_def)
  have l: "snd (process_restart mpi1 fs0 (a_snapshot_pattern args0) (effective_restart_name args0) 5)
       = Inr loaded0"
    by (simp add: args0_def effective_restart_name_def process_restart0)
  note c = restart_round_trip [OF s e, of sim_ok default_params 0 10 0]
  show ?thesis
    by (intro conjI s e c l write_at_10)
qed

text \<open>
  Without the amendment the statement fails: loading the snapshot of step 5,
  making no step and checkpointing produces no record at all. The whole run
  on that input, event by event:
\<close>

theorem restart_round_trip_counterexample:
  "run_flame sim_ok rhs_id adv_zero mpi1 args0 fs0 =
     ([InitLogmgr, MakeContext, PrintControl default_params, PhysicsSetup,
       OpenRead ''flame1d-000005-0000.pkl'', LogInfo ''Making discretization'',
       MakeDiscretization, LogmgrWatches, MakeVisualizer, LogInfo ''Stepping.'',
       AdvanceState 5 (25 / 10 ^ 8), LogInfo ''Checkpointing final state ...'',
       SimCheckpoint \<lparr> sc_step = 5, sc_t = 25 / 10 ^ 8, sc_dt = 25 / 10 ^ 8, sc_nviz = 5,
                       sc_state = [Fin 1, Fin 2] \<rparr>,
       LogmgrClose],
      fs0, SystemExit)"
  by (simp add: run_flame_def args0_def effective_restart_name_def load_run_params_def
      process_restart0 loaded0_def make_ctx_def adv_zero_def run_flame_finish_def
      my_checkpoint_def sim_ok_def default_params_def mpi1_fields Let_def)

subsection \<open>Command line without a configuration file\<close>

text \<open>
  C8. Without \<^verbatim>\<open>-i\<close> the script is meant to go on with the default
  parameters. The code never binds \<^verbatim>\<open>input_file\<close> on that path, so the call
  of \<^verbatim>\<open>run_flame\<close> is never made: the script ends in an error before it, and
  when the \<^verbatim>\<open>-r\<close> value parses, that error is the NameError on
  \<^verbatim>\<open>input_file\<close>.
\<close>

theorem main_without_input_file:
  assumes "cli_input_file c = None"
  shows "(\<forall>a. main_args c \<noteq> Inr a)
       \<and> (main_restart (parsed (cli_restart_file c)) = Inr rs \<longrightarrow>
            main_args c = Inl (NameError ''input_file'')
          \<and> main sim_checkpoint rhs_op advance_state m c fs = ([], fs, NameError ''input_file''))"
proof -
  have i: "main_input_file (parsed (cli_input_file c)) = None"
    using assms by (simp add: main_input_file_def parsed_def truthy_def)
  have a: "main_args c = (case main_restart (parsed (cli_restart_file c)) of
                            Inl e \<Rightarrow> Inl e | Inr rs \<Rightarrow> Inl (NameError ''input_file''))"
    by (simp add: main_args_def i read_name_def Let_def split: sum.splits prod.splits)
  show ?thesis
    by (auto simp add: a main_def split: sum.splits)
qed

theorem main_without_input_file_witness:
  "cli_input_file cli0 = None
   \<and> main_restart (parsed (cli_restart_file cli0)) = Inr (Some 5, Some ''flame1d'')
   \<and> main_args cli0 = Inl (NameError ''input_file'')
   \<and> main sim_ok rhs_id adv_zero mpi1 cli0 fs0 = ([], fs0, NameError ''input_file'')"
proof -
  have i: "cli_input_file cli0 = None" by (simp add: cli0_def)
  have "main_restart (parsed (Some ([] @ format_pattern main_snapshot_pattern ''flame1d'' (int 5) (int 0))))
          = Inr (Some (int 5), Some ''flame1d'')"
    by (rule main_restart_formatted [OF plain_flame1d]) simp
  then have r: "main_restart (parsed (cli_restart_file cli0)) = Inr (Some 5, Some ''flame1d'')"
    by (simp add: cli0_def name0)
  show ?thesis
    using main_without_input_file [OF i, of "(Some 5, Some ''flame1d'')" sim_ok rhs_id adv_zero mpi1 fs0] i r
    by simp
qed

subsection \<open>Restart step and name from the file name\<close>

text \<open>
  C9, as amended. For every \<^verbatim>\<open>-r\<close> path whose base name is
  \<^verbatim>\<open>{casename}-{step:06d}-{rank:04d}.pkl\<close> with a step and rank that are not
  negative and a case name of printable ASCII characters other than the
  apostrophe, the backslash, the dash and the slash, the command line derives
  the step and the case name, whatever directory precedes the base name.
\<close>

theorem restart_file_parse:
  assumes "plain_name cn" and "dir = [] \<or> last dir = slash"
  shows "main_restart (parsed (Some (dir @ format_pattern main_snapshot_pattern cn (int st) (int rk))))
         = Inr (Some (int st), Some cn)"
  using assms by (rule main_restart_formatted)

theorem restart_file_parse_witness:
  "plain_name ''flame1d'' \<and> (''out/'' = [] \<or> last ''out/'' = slash)
   \<and> main_restart (parsed (Some ''out/flame1d-000005-0000.pkl'')) = Inr (Some 5, Some ''flame1d'')"
proof -
  have d: "''out/'' = [] \<or> last ''out/'' = slash" by (simp add: slash_def)
  show ?thesis
    using restart_file_parse [OF plain_flame1d d, of 5 0] plain_flame1d d by (simp add: name0)
qed

text \<open>
  Without the amendment the statement fails: a case name with a dash makes
  \<^verbatim>\<open>int\<close> raise, one with an apostrophe comes back without it and with the
  double quote of the \<^verbatim>\<open>repr\<close>, and a tab comes back as its escape.
\<close>

theorem restart_file_parse_counterexample:
  "main_restart (parsed (Some (format_pattern main_snapshot_pattern ''my-case'' 5 0)))
     = Inl (ValueError ''invalid literal for int() with base 10'')
   \<and> main_restart (parsed (Some (format_pattern main_snapshot_pattern a_apos_b 5 0)))
     = Inr (Some 5, Some [CHR 0x22, CHR ''a'', CHR ''b''])
   \<and> main_restart (parsed (Some (format_pattern main_snapshot_pattern [CHR 0x09] 5 0)))
     = Inr (Some 5, Some [CHR 0x5C, CHR ''t''])"
  by (simp add: format_step5 a_apos_b_def main_restart_def parsed_def truthy_def py_ascii_def
      repr_quote_def repr_char_def apos_def dquote_def backslash_def slash_def dash_def
      os_path_split_def list_get_def py_int_str_def py_strip_def py_isspace_def digit_val_def
      replace_apos_def Let_def)

subsection \<open>Apostrophes in the case name\<close>

text \<open>
  C10, as amended. The case name used is \<^verbatim>\<open>ascii\<close> of the \<^verbatim>\<open>-c\<close> argument with
  every apostrophe removed. It never holds an apostrophe, so an argument with
  an apostrophe is altered; it is the argument itself when the argument
  consists of printable ASCII characters other than the apostrophe and the
  backslash. The restart name, when the \<^verbatim>\<open>-r\<close> value parses, is the first
  dash-separated piece of the file name with every apostrophe removed.
\<close>

theorem casename_stripping:
  "main_casename (parsed (Some a)) = replace_apos (py_ascii a)
   \<and> apos \<notin> set (main_casename (parsed (Some a)))
   \<and> (list_all plain_char a \<longrightarrow> main_casename (parsed (Some a)) = a)
   \<and> (main_restart (parsed (Some r)) = Inr (st, n) \<longrightarrow>
         n = Some (replace_apos (hd (split_on dash (snd (os_path_split (py_ascii r)))))))"
proof -
  have "list_all plain_char a \<Longrightarrow> replace_apos (py_ascii a) = a"
  proof -
    assume p: "list_all plain_char a"
    then have "apos \<notin> set a" by (auto simp add: list_all_iff plain_char_def)
    then have "filter (\<lambda>c. c \<noteq> apos) a = a" by (auto simp add: filter_id_conv)
    then show ?thesis by (simp add: py_ascii_plain [OF p] replace_apos_def)
  qed
  then show ?thesis
    using main_restart_name [of r st n]
    by (simp add: main_casename_given replace_apos_free)
qed

theorem casename_stripping_witness:
  "list_all plain_char ''flame1d''
   \<and> main_restart (parsed (Some ''out/flame1d-000005-0000.pkl'')) = Inr (Some 5, Some ''flame1d'')
   \<and> main_casename (parsed (Some ''flame1d'')) = ''flame1d''
   \<and> apos \<notin> set (main_casename (parsed (Some ''flame1d'')))
   \<and> Some ''flame1d'' = Some (replace_apos (hd (split_on dash (snd (os_path_split
         (py_ascii ''out/flame1d-000005-0000.pkl''))))))"
proof -
  have p: "list_all plain_char ''flame1d''"
    using plain_flame1d by (simp add: plain_name_def)
  have d: "''out/'' = [] \<or> last ''out/'' = slash" by (simp add: slash_def)
  have r: "main_restart (parsed (Some ''out/flame1d-000005-0000.pkl'')) = Inr (Some 5, Some ''flame1d'')"
    using main_restart_formatted [OF plain_flame1d d, of 5 0] by (simp add: name0)
  note c = casename_stripping [of "''flame1d''" "''out/flame1d-000005-0000.pkl''" "Some 5" "Some ''flame1d''"]
  from c have c2: "apos \<notin> set (main_casename (parsed (Some ''flame1d'')))"
    by blast
  from c p have c3: "main_casename (parsed (Some ''flame1d'')) = ''flame1d''"
    by blast
  from c r have c4: "Some ''flame1d'' = Some (replace_apos (hd (split_on dash (snd (os_path_split
         (py_ascii ''out/flame1d-000005-0000.pkl''))))))"
    by blast
  show ?thesis
    by (intro conjI p r c3 c2 c4)
qed

text \<open>
  Without the amendment the statement fails: for \<^verbatim>\<open>a'b\<close> the case name used
  is not \<^verbatim>\<open>ab\<close>, the argument without its apostrophe, but \<^verbatim>\<open>ab\<close> between the
  double quotes that \<^verbatim>\<open>ascii\<close> put around it.
\<close>

theorem casename_stripping_counterexample:
  "main_casename (parsed (Some a_apos_b)) = [CHR 0x22, CHR ''a'', CHR ''b'', CHR 0x22]
   \<and> replace_apos a_apos_b = ''ab''
   \<and> main_casename (parsed (Some a_apos_b)) \<noteq> replace_apos a_apos_b"
  by (simp add: a_apos_b_def main_casename_def parsed_def truthy_def py_ascii_def repr_quote_def
      repr_char_def replace_apos_def apos_def dquote_def backslash_def Let_def)

end
